theory Spec2Isabelle
  imports Complex_Main "HOL-Library.Char_ord" "HOL-Library.List_Lexorder"
begin

section \<open>JavaScript values\<close>

text \<open>
  The reconciler (\<^verbatim>\<open>applyCommand\<close> and its helpers) works on plain JavaScript data:
  the declared container applications of the configuration file and the applications
  returned by the listing endpoint. A value is one of the JSON kinds, \<^verbatim>\<open>undefined\<close>, or a
  built-in function (\<open>JFun\<close>, identified by its \<^verbatim>\<open>name\<close>), which only occurs as a member
  inherited from \<^verbatim>\<open>Object.prototype\<close>. An object is the list of its own enumerable
  properties in enumeration order. Numbers are integers here: the reconciler never
  computes with them.
\<close>

datatype jsval =
    JUndef
  | JNull
  | JBool bool
  | JNum int
  | JStr string
  | JArr "jsval list"
  | JObj "(string \<times> jsval) list"
  | JFun string

type_synonym obj = "(string \<times> jsval) list"

datatype error = TypeError | RangeError | UserError string | Crash string

datatype jstype = TUndefined | TObject | TBoolean | TNumber | TString | TFunction

fun typeof :: "jsval \<Rightarrow> jstype" where
  "typeof JUndef = TUndefined"
| "typeof JNull = TObject"
| "typeof (JBool b) = TBoolean"
| "typeof (JNum n) = TNumber"
| "typeof (JStr s) = TString"
| "typeof (JArr xs) = TObject"
| "typeof (JObj kvs) = TObject"
| "typeof (JFun f) = TFunction"

text \<open>Truthiness, as the conditional operator tests it.\<close>

fun truthy :: "jsval \<Rightarrow> bool" where
  "truthy JUndef = False"
| "truthy JNull = False"
| "truthy (JBool b) = b"
| "truthy (JNum n) = (n \<noteq> 0)"
| "truthy (JStr s) = (s \<noteq> [])"
| "truthy v = True"

subsection \<open>Own properties and their enumeration order\<close>

text \<open>
  An ordinary object enumerates its array-index keys first, in ascending numeric order,
  and then its other string keys in the order they were created. An array index is the
  canonical decimal form of an integer below \<open>2^32 - 1\<close>.
\<close>

definition is_digit :: "char \<Rightarrow> bool" where
  "is_digit c \<longleftrightarrow> c \<in> set ''0123456789''"

definition digit_val :: "char \<Rightarrow> nat" where
  "digit_val c = of_char c - 48"

definition int_of_digits :: "string \<Rightarrow> int" where
  "int_of_digits ds = foldl (\<lambda>n c. 10 * n + int (digit_val c)) 0 ds"

definition is_array_index :: "string \<Rightarrow> bool" where
  "is_array_index k \<longleftrightarrow>
     k \<noteq> [] \<and> list_all is_digit k \<and> (k = ''0'' \<or> hd k \<noteq> CHR ''0'') \<and>
     int_of_digits k < 4294967295"

abbreviation obj_keys :: "obj \<Rightarrow> string list" where
  "obj_keys ob \<equiv> map fst ob"

definition obj_get :: "obj \<Rightarrow> string \<Rightarrow> jsval" where
  "obj_get ob k = (case map_of ob k of Some v \<Rightarrow> v | None \<Rightarrow> JUndef)"

fun obj_update :: "string \<Rightarrow> jsval \<Rightarrow> obj \<Rightarrow> obj" where
  "obj_update k v [] = []"
| "obj_update k v (p # ps) = (if fst p = k then (k, v) # ps else p # obj_update k v ps)"

fun obj_insert_index :: "string \<Rightarrow> jsval \<Rightarrow> obj \<Rightarrow> obj" where
  "obj_insert_index k v [] = [(k, v)]"
| "obj_insert_index k v (p # ps) =
     (if is_array_index (fst p) \<and> int_of_digits (fst p) < int_of_digits k
      then p # obj_insert_index k v ps
      else (k, v) # p # ps)"

text \<open>The assignment \<^verbatim>\<open>ob[k] = v\<close> on an ordinary object.\<close>

definition obj_set :: "string \<Rightarrow> jsval \<Rightarrow> obj \<Rightarrow> obj" where
  "obj_set k v ob =
     (if k \<in> set (obj_keys ob) then obj_update k v ob
      else if is_array_index k then obj_insert_index k v ob
      else ob @ [(k, v)])"

text \<open>\<^verbatim>\<open>delete ob[k]\<close>.\<close>

definition obj_delete :: "string \<Rightarrow> obj \<Rightarrow> obj" where
  "obj_delete k ob = filter (\<lambda>p. fst p \<noteq> k) ob"

section \<open>Normalisation helpers of the reconciler\<close>

text \<open>
  \<^verbatim>\<open>stripUndefined\<close>: the \<^verbatim>\<open>for ... in\<close> loop visits the keys of \<open>r\<close> and deletes each key
  whose value is \<^verbatim>\<open>undefined\<close>. It does not descend into nested values.
\<close>

definition stripUndefined :: "obj \<Rightarrow> obj" where
  "stripUndefined r =
     foldl (\<lambda>r k. if obj_get r k = JUndef then obj_delete k r else r) r (obj_keys r)"

text \<open>
  \<^verbatim>\<open>order\<close>: an array is returned as it is; otherwise the keys are sorted with the default
  comparison of \<^verbatim>\<open>Array.prototype.sort\<close> (code units, lexicographically) and assigned one
  after the other to a fresh object. The parameter type admits objects and arrays only.
\<close>

fun order :: "jsval \<Rightarrow> jsval" where
  "order (JArr xs) = JArr xs"
| "order (JObj unordered) =
     JObj (foldl (\<lambda>ob key. obj_set key (obj_get unordered key) ob) [] (sort (obj_keys unordered)))"
| "order v = v"

text \<open>
  \<^verbatim>\<open>sortObjectDeeply\<close>: a value that is not of type \<^verbatim>\<open>"object"\<close> is returned; an array is
  mapped element by element; for any other object, the loop over
  \<^verbatim>\<open>Object.entries(object)\<close> replaces, in a copy, each value of type \<^verbatim>\<open>"object"\<close> other
  than \<^verbatim>\<open>null\<close> by its sorted form (\<open>sort_entries\<close>), and the copy is passed to
  \<^verbatim>\<open>order\<close>. Called on \<^verbatim>\<open>null\<close> itself (at the top, or as an array element),
  \<^verbatim>\<open>Object.entries(null)\<close> throws a \<^verbatim>\<open>TypeError\<close>.
\<close>

fun sortObjectDeeply :: "jsval \<Rightarrow> error + jsval"
  and sort_elems :: "jsval list \<Rightarrow> error + jsval list"
  and sort_entries :: "(string \<times> jsval) list \<Rightarrow> obj \<Rightarrow> error + obj"
where
  "sortObjectDeeply JNull = Inl TypeError"
| "sortObjectDeeply (JArr xs) =
     (case sort_elems xs of Inl e \<Rightarrow> Inl e | Inr ys \<Rightarrow> Inr (JArr ys))"
| "sortObjectDeeply (JObj kvs) =
     (case sort_entries kvs kvs of Inl e \<Rightarrow> Inl e | Inr objectCopy \<Rightarrow> Inr (order (JObj objectCopy)))"
| "sortObjectDeeply v = Inr v"
| "sort_elems [] = Inr []"
| "sort_elems (x # xs) =
     (case sortObjectDeeply x of
        Inl e \<Rightarrow> Inl e
      | Inr y \<Rightarrow> (case sort_elems xs of Inl e \<Rightarrow> Inl e | Inr ys \<Rightarrow> Inr (y # ys)))"
| "sort_entries [] objectCopy = Inr objectCopy"
| "sort_entries ((key, val) # rest) objectCopy =
     (if typeof val = TObject then
        (if val = JNull then sort_entries rest objectCopy
         else (case sortObjectDeeply val of
                 Inl e \<Rightarrow> Inl e
               | Inr sv \<Rightarrow> sort_entries rest (obj_set key sv objectCopy)))
      else sort_entries rest objectCopy)"


section \<open>The reconciler: \<^verbatim>\<open>applyCommand\<close>\<close>

subsection \<open>Property keys and field reads\<close>

text \<open>
  A value used as a property key is converted to a string. Integers print in plain decimal
  (JavaScript does so below \<open>10^21\<close>).
\<close>

definition digit_char :: "nat \<Rightarrow> char" where
  "digit_char d = char_of (48 + d)"

function string_of_nat :: "nat \<Rightarrow> string" where
  "string_of_nat n = (if n < 10 then [digit_char n] else string_of_nat (n div 10) @ [digit_char (n mod 10)])"
  by pat_completeness auto
termination
  by (relation "measure id") auto

definition string_of_int :: "int \<Rightarrow> string" where
  "string_of_int i = (if i < 0 then CHR ''-'' # string_of_nat (nat (- i)) else string_of_nat (nat i))"

fun to_string :: "jsval \<Rightarrow> string"
  and join_elems :: "jsval list \<Rightarrow> string"
where
  "to_string JUndef = ''undefined''"
| "to_string JNull = ''null''"
| "to_string (JBool b) = (if b then ''true'' else ''false'')"
| "to_string (JNum n) = string_of_int n"
| "to_string (JStr s) = s"
| "to_string (JArr xs) = join_elems xs"
| "to_string (JObj kvs) = ''[object Object]''"
| "to_string (JFun f) = ''function '' @ f @ ''() { [native code] }''"
| "join_elems [] = []"
| "join_elems [x] = (if x = JUndef \<or> x = JNull then [] else to_string x)"
| "join_elems (x # y # ys) =
     (if x = JUndef \<or> x = JNull then [] else to_string x) @ '','' @ join_elems (y # ys)"

text \<open>
  \<open>get_field v k\<close> reads one of the fields that the command names literally
  (\<^verbatim>\<open>configuration\<close>, \<^verbatim>\<open>constraints\<close>, \<^verbatim>\<open>name\<close>, \<^verbatim>\<open>scheduling_policy\<close>, \<^verbatim>\<open>affinities\<close>,
  \<^verbatim>\<open>instances\<close>, \<^verbatim>\<open>jobs\<close>, \<^verbatim>\<open>id\<close>) from a value that is neither \<^verbatim>\<open>undefined\<close> nor
  \<^verbatim>\<open>null\<close>. None of these is a member of \<^verbatim>\<open>Object.prototype\<close>, so on an object the own
  property decides; a built-in function has a \<^verbatim>\<open>name\<close> and none of the others; strings,
  numbers, booleans and arrays have none of them.
\<close>

fun get_field :: "jsval \<Rightarrow> string \<Rightarrow> jsval" where
  "get_field (JObj kvs) k = obj_get kvs k"
| "get_field (JFun f) k = (if k = ''name'' then JStr f else JUndef)"
| "get_field v k = JUndef"

text \<open>\<^verbatim>\<open>applicationToCreateApplication\<close>: the seven fields of a create request, in this order.\<close>

definition applicationToCreateApplication :: "jsval \<Rightarrow> error + obj" where
  "applicationToCreateApplication application =
     (if application = JUndef \<or> application = JNull then Inl TypeError
      else Inr
        [(''configuration'', get_field application ''configuration''),
         (''constraints'', get_field application ''constraints''),
         (''name'', get_field application ''name''),
         (''scheduling_policy'', get_field application ''scheduling_policy''),
         (''affinities'', get_field application ''affinities''),
         (''instances'', get_field application ''instances''),
         (''jobs'', if truthy (get_field application ''jobs'') then JBool True else JUndef)])"

subsection \<open>The table \<^verbatim>\<open>applicationByNames\<close>\<close>

text \<open>
  \<^verbatim>\<open>applicationByNames\<close> is an object literal \<^verbatim>\<open>{}\<close> used as a dictionary. Reading a key that
  is not an own property continues along the prototype chain, so the members of
  \<^verbatim>\<open>Object.prototype\<close> are found under their names; assigning to the key \<^verbatim>\<open>__proto__\<close>
  replaces the prototype by the assigned object instead of creating a property. The
  table is therefore its own properties together with its prototype (\<open>None\<close> for the
  initial \<^verbatim>\<open>Object.prototype\<close>). \<^verbatim>\<open>Object.prototype\<close> itself, as a value, has none of the
  fields the command reads and is represented by the empty object. Listed applications
  are taken to have no own property called \<^verbatim>\<open>__proto__\<close>.
\<close>

record name_table =
  own :: obj
  proto :: "obj option"

definition empty_table :: name_table where
  "empty_table = \<lparr> own = [], proto = None \<rparr>"

definition object_prototype_member :: "string \<Rightarrow> jsval" where
  "object_prototype_member k =
     (if k = ''constructor'' then JFun ''Object''
      else if k \<in> set [''__defineGetter__'', ''__defineSetter__'', ''hasOwnProperty'',
                        ''__lookupGetter__'', ''__lookupSetter__'', ''isPrototypeOf'',
                        ''propertyIsEnumerable'', ''toString'', ''valueOf'', ''toLocaleString'']
      then JFun k
      else JUndef)"

definition inherited :: "name_table \<Rightarrow> string \<Rightarrow> jsval" where
  "inherited tbl k =
     (if k = ''__proto__'' then (case proto tbl of None \<Rightarrow> JObj [] | Some p \<Rightarrow> JObj p)
      else object_prototype_member k)"

definition table_get :: "name_table \<Rightarrow> string \<Rightarrow> jsval" where
  "table_get tbl k =
     (case map_of (own tbl) k of
        Some v \<Rightarrow> v
      | None \<Rightarrow>
          (case proto tbl of
             None \<Rightarrow> inherited tbl k
           | Some p \<Rightarrow> (case map_of p k of Some v \<Rightarrow> v | None \<Rightarrow> inherited tbl k)))"

definition table_set :: "string \<Rightarrow> obj \<Rightarrow> name_table \<Rightarrow> name_table" where
  "table_set k application tbl =
     (if k = ''__proto__'' then tbl\<lparr> proto := Some application \<rparr>
      else tbl\<lparr> own := obj_set k (JObj application) (own tbl) \<rparr>)"

definition name_key :: "obj \<Rightarrow> string" where
  "name_key ob = to_string (obj_get ob ''name'')"

text \<open>The loop \<^verbatim>\<open>for (const application of applications)\<close>: a later application replaces an
  earlier one of the same name.\<close>

definition applicationByNames :: "obj list \<Rightarrow> name_table" where
  "applicationByNames applications =
     foldl (\<lambda>tbl application. table_set (name_key application) application tbl)
       empty_table applications"


subsection \<open>Collaborators, inputs and observable events\<close>

text \<open>
  The TOML serialiser, the line diff and two constants of the API client are used by the
  command and defined outside it; they are parameters of the model. A part of a line diff
  carries its text and the flags \<^verbatim>\<open>added\<close> and \<^verbatim>\<open>removed\<close>.
\<close>

record change =
  ch_value :: string
  ch_added :: bool
  ch_removed :: bool

record services =
  toml_stringify :: "jsval \<Rightarrow> string"
  diffLines :: "string \<Rightarrow> string \<Rightarrow> change list"
  REGIONAL :: jsval
  VALIDATE_INPUT :: string






datatype action = Create obj | Modify jsval jsval obj

text \<open>
  What the command does to the outside, in order. Colour functions are not modelled:
  styled text stands as its plain text. \<open>PrintLine startWith el\<close> is a call of
  \<^verbatim>\<open>printLine\<close> printing through \<^verbatim>\<open>log\<close>, \<open>PrintLineRaw\<close> one printing through \<^verbatim>\<open>logRaw\<close>.
  \<open>CallList\<close>, \<open>CallCreate\<close> and \<open>CallModify\<close> are the requests to the remote service.
\<close>

datatype event =
    StartSection string string
  | EndSection string "string option"
  | PrintLine string string
  | PrintLineRaw string string
  | Log string
  | UpdateStatus string
  | CallList
  | CallCreate obj
  | CallModify jsval obj
  | Prompt string
  | Cancel string
  | Success string
  | Crash string
  | Throw error


subsection \<open>String helpers\<close>

fun split_on :: "char \<Rightarrow> string \<Rightarrow> string list" where
  "split_on c [] = [[]]"
| "split_on c (x # xs) =
     (if x = c then [] # split_on c xs
      else (case split_on c xs of [] \<Rightarrow> [[x]] | l # ls \<Rightarrow> (x # l) # ls))"

definition newline :: char where
  "newline = char_of (10::nat)"

definition is_space :: "char \<Rightarrow> bool" where
  "is_space c \<longleftrightarrow> of_char c \<in> set [9, 10, 11, 12, 13, 32, 160 :: nat]"

definition trim :: "string \<Rightarrow> string" where
  "trim s = rev (dropWhile is_space (rev (dropWhile is_space s)))"

subsection \<open>Planning the actions\<close>

definition has_changes :: "change list \<Rightarrow> bool" where
  "has_changes lines \<longleftrightarrow> find (\<lambda>l. ch_added l \<or> ch_removed l) lines \<noteq> None"

definition line_values :: "change \<Rightarrow> string list" where
  "line_values line = filter (\<lambda>e. e \<noteq> []) (map trim (split_on newline (ch_value line)))"

fun print_change :: "change \<Rightarrow> string list \<Rightarrow> bool \<Rightarrow> event list \<times> bool" where
  "print_change line [] printedOneLine = ([], printedOneLine)"
| "print_change line (l # ls) printedOneLine =
     (let sep = (if take 1 l = ''['' \<and> printedOneLine then [PrintLine [] []] else []);
          ev = (if ch_added line then PrintLine ''+ '' l
                else if ch_removed line then PrintLine ''- '' l
                else PrintLine ''  '' l);
          (evs, p) = print_change line ls True
      in (sep @ ev # evs, p))"

fun print_diff :: "change list \<Rightarrow> bool \<Rightarrow> event list" where
  "print_diff [] printedOneLine = []"
| "print_diff (line # lines) printedOneLine =
     (case print_change line (line_values line) printedOneLine of
        (evs, p) \<Rightarrow> evs @ print_diff lines p)"

text \<open>
  The two values that are compared: for the live application,
  \<^verbatim>\<open>sortObjectDeeply(stripUndefined(applicationToCreateApplication(application)))\<close>; for the
  declared one, \<^verbatim>\<open>sortObjectDeeply(appConfig)\<close>.
\<close>

definition normalize_live :: "jsval \<Rightarrow> error + jsval" where
  "normalize_live application =
     (case applicationToCreateApplication application of
        Inl e \<Rightarrow> Inl e
      | Inr request \<Rightarrow> sortObjectDeeply (JObj (stripUndefined request)))"

definition normalize_declared :: "obj \<Rightarrow> error + jsval" where
  "normalize_declared appConfig = sortObjectDeeply (JObj appConfig)"

text \<open>
  One turn of the loop \<^verbatim>\<open>for (const appConfig of config.container_app)\<close>: the events it
  prints, and either the exception that ends the command or the actions it pushes.
\<close>

definition plan_step :: "services \<Rightarrow> name_table \<Rightarrow> obj \<Rightarrow> event list \<times> (error + action list)" where
  "plan_step svc applicationByNames_tbl appConfig =
     (let application = table_get applicationByNames_tbl (name_key appConfig) in
      if application \<noteq> JUndef \<and> application \<noteq> JNull then
        (case normalize_live application of
           Inl e \<Rightarrow> ([], Inl e)
         | Inr prevApp \<Rightarrow>
        (case normalize_declared appConfig of
           Inl e \<Rightarrow> ([], Inl e)
         | Inr nowApp \<Rightarrow>
            (let prev = toml_stringify svc (JObj [(''container_app'', prevApp)]);
                 now = toml_stringify svc (JObj [(''container_app'', nowApp)]);
                 lines = diffLines svc prev now
             in if \<not> has_changes lines then
                  ([UpdateStatus (''no changes '' @ to_string (get_field application ''name''))],
                   Inr [])
                else
                  (UpdateStatus (''edited '' @ to_string (get_field application ''name''))
                     # print_diff lines False @ [PrintLine [] []],
                   Inr [Modify (get_field application ''id'') (get_field application ''name'')
                          appConfig]))))
      else
        (UpdateStatus (''new '' @ to_string (obj_get appConfig ''name''))
           # map (PrintLine [])
               (map trim (split_on newline
                  (toml_stringify svc (JObj [(''container_app'', JArr [JObj appConfig])])))),
         Inr [Create appConfig]))"

fun plan :: "services \<Rightarrow> name_table \<Rightarrow> obj list \<Rightarrow> event list \<times> (error + action list)" where
  "plan svc tbl [] = ([], Inr [])"
| "plan svc tbl (appConfig # rest) =
     (case plan_step svc tbl appConfig of
        (evs, Inl e) \<Rightarrow> (evs, Inl e)
      | (evs, Inr acts) \<Rightarrow>
          (case plan svc tbl rest of
             (evs', Inl e) \<Rightarrow> (evs @ evs', Inl e)
           | (evs', Inr acts') \<Rightarrow> (evs @ evs', Inr (acts @ acts'))))"

subsection \<open>Applying the actions\<close>





subsection \<open>The command\<close>





section \<open>The lifecycle-rule editor\<close>

subsection \<open>Numbers read from text\<close>

text \<open>
  \<^verbatim>\<open>Number(text)\<close>: the text is trimmed; the empty text is \<open>0\<close>; otherwise it must be a
  numeric literal as a whole (a signed decimal literal with optional fraction and
  exponent, \<^verbatim>\<open>Infinity\<close>, or an unsigned binary, octal or hexadecimal integer), and anything
  else is \<^verbatim>\<open>NaN\<close>. Finite values are kept exact: rounding to binary64 is not modelled, so
  the value is the JavaScript one whenever that one is exact (as for integers below
  \<open>2^53\<close>).
\<close>

datatype jsnum = NaN | PosInf | NegInf | Fin rat

definition isNaN :: "jsnum \<Rightarrow> bool" where
  "isNaN x \<longleftrightarrow> x = NaN"

definition radix_val :: "char \<Rightarrow> nat" where
  "radix_val c =
     (if is_digit c then digit_val c
      else if c \<in> set ''abcdef'' then of_char c - 87
      else if c \<in> set ''ABCDEF'' then of_char c - 55
      else 99)"

definition parse_radix :: "nat \<Rightarrow> string \<Rightarrow> int option" where
  "parse_radix b ds =
     (if ds \<noteq> [] \<and> list_all (\<lambda>c. radix_val c < b) ds
      then Some (foldl (\<lambda>n c. int b * n + int (radix_val c)) 0 ds)
      else None)"

definition parse_digits :: "string \<Rightarrow> int option" where
  "parse_digits ds = (if ds \<noteq> [] \<and> list_all is_digit ds then Some (int_of_digits ds) else None)"

definition parse_exponent :: "string \<Rightarrow> int option" where
  "parse_exponent t =
     (case t of
        [] \<Rightarrow> Some 0
      | c # r \<Rightarrow>
          (if c = CHR ''e'' \<or> c = CHR ''E'' then
             (case r of
                [] \<Rightarrow> None
              | d # ds \<Rightarrow>
                  (if d = CHR ''+'' then parse_digits ds
                   else if d = CHR ''-'' then map_option uminus (parse_digits ds)
                   else parse_digits r))
           else None))"

definition scale10 :: "rat \<Rightarrow> int \<Rightarrow> rat" where
  "scale10 q e = (if 0 \<le> e then q * 10 ^ nat e else q / 10 ^ nat (- e))"

definition parse_unsigned_decimal :: "string \<Rightarrow> rat option" where
  "parse_unsigned_decimal t =
     (let ip = takeWhile is_digit t;
          r1 = dropWhile is_digit t;
          fp = (case r1 of [] \<Rightarrow> [] | c # r \<Rightarrow> if c = CHR ''.'' then takeWhile is_digit r else []);
          r2 = (case r1 of [] \<Rightarrow> [] | c # r \<Rightarrow> if c = CHR ''.'' then dropWhile is_digit r else r1)
      in if ip = [] \<and> fp = [] then None
         else (case parse_exponent r2 of
                 None \<Rightarrow> None
               | Some e \<Rightarrow>
                   Some (scale10 (of_int (int_of_digits (ip @ fp)) / 10 ^ length fp) e)))"

definition parse_unsigned :: "string \<Rightarrow> jsnum" where
  "parse_unsigned t =
     (if t = ''Infinity'' then PosInf
      else (case parse_unsigned_decimal t of None \<Rightarrow> NaN | Some q \<Rightarrow> Fin q))"

fun negate :: "jsnum \<Rightarrow> jsnum" where
  "negate NaN = NaN"
| "negate PosInf = NegInf"
| "negate NegInf = PosInf"
| "negate (Fin q) = Fin (- q)"

definition Number :: "string \<Rightarrow> jsnum" where
  "Number text =
     (let t = trim text in
      if t = [] then Fin 0
      else if take 2 t = ''0x'' \<or> take 2 t = ''0X'' then
        (case parse_radix 16 (drop 2 t) of None \<Rightarrow> NaN | Some n \<Rightarrow> Fin (of_int n))
      else if take 2 t = ''0o'' \<or> take 2 t = ''0O'' then
        (case parse_radix 8 (drop 2 t) of None \<Rightarrow> NaN | Some n \<Rightarrow> Fin (of_int n))
      else if take 2 t = ''0b'' \<or> take 2 t = ''0B'' then
        (case parse_radix 2 (drop 2 t) of None \<Rightarrow> NaN | Some n \<Rightarrow> Fin (of_int n))
      else if take 1 t = ''+'' then parse_unsigned (drop 1 t)
      else if take 1 t = ''-'' then negate (parse_unsigned (drop 1 t))
      else parse_unsigned t)"

text \<open>Multiplication by a positive finite constant.\<close>

fun times :: "jsnum \<Rightarrow> rat \<Rightarrow> jsnum" where
  "times (Fin q) c = Fin (q * c)"
| "times x c = x"

subsection \<open>Dates\<close>







text \<open>
  Modelled from the spec: \<^verbatim>\<open>isValidDate\<close> of \<^verbatim>\<open>./helpers\<close>, which is not among the sources.
  The spec asks for "a calendar date in \<^verbatim>\<open>YYYY-MM-DD\<close> form". The handlers below take the
  helper as a parameter; this definition is one such helper.
\<close>

definition days_in_month :: "int \<Rightarrow> int \<Rightarrow> int" where
  "days_in_month y m =
     (if m = 2 then (if y mod 4 = 0 \<and> (y mod 100 \<noteq> 0 \<or> y mod 400 = 0) then 29 else 28)
      else if m \<in> set [4, 6, 9, 11] then 30 else 31)"

definition isValidDate_spec :: "string \<Rightarrow> bool" where
  "isValidDate_spec s \<longleftrightarrow>
     length s = 10 \<and> s ! 4 = CHR ''-'' \<and> s ! 7 = CHR ''-''
     \<and> list_all is_digit (take 4 s) \<and> list_all is_digit (take 2 (drop 5 s))
     \<and> list_all is_digit (take 2 (drop 8 s))
     \<and> 1 \<le> int_of_digits (take 2 (drop 5 s)) \<and> int_of_digits (take 2 (drop 5 s)) \<le> 12
     \<and> 1 \<le> int_of_digits (take 2 (drop 8 s))
     \<and> int_of_digits (take 2 (drop 8 s))
          \<le> days_in_month (int_of_digits (take 4 s)) (int_of_digits (take 2 (drop 5 s)))"

subsection \<open>Rules\<close>

text \<open>
  A transition condition is \<^verbatim>\<open>{maxAge, type: "Age"}\<close> or \<^verbatim>\<open>{date, type: "Date"}\<close>.
\<close>

datatype condition = Age jsnum | Date string

record lifecycle_rule =
  rule_id :: string
  enabled :: bool
  conditions_prefix :: "string option"
  deleteObjectsTransition :: "condition option"
  storageClassTransitions :: "(condition \<times> string) list option"
  abortMultipartUploadsTransition :: "condition option"

datatype lc_event =
    GetLifecycleRules string string "string option"
  | LogMessage string
  | PutLifecycleRules string string "lifecycle_rule list" "string option"

fun is_put :: "lc_event \<Rightarrow> bool" where
  "is_put (PutLifecycleRules a b rs j) = True"
| "is_put e = False"

definition quoted :: "string \<Rightarrow> string" where
  "quoted s = CHR 0x27 # s @ [CHR 0x27]"

subsection \<open>\<^verbatim>\<open>AddHandler\<close>\<close>

text \<open>The \<^verbatim>\<open>validate\<close> callbacks given to the prompts: \<open>None\<close> accepts the input.\<close>

definition validate_id :: "string \<Rightarrow> string option" where
  "validate_id v = (if length v = 0 then Some ''This field cannot be empty'' else None)"

definition validate_actions :: "string list \<Rightarrow> string option" where
  "validate_actions vs = (if length vs = 0 then Some ''Select atleast one action'' else None)"

definition validate_days :: "string \<Rightarrow> string option" where
  "validate_days v = (if isNaN (Number v) then Some ''Please enter a number of days'' else None)"

definition validate_days_or_date :: "(string \<Rightarrow> bool) \<Rightarrow> string \<Rightarrow> string option" where
  "validate_days_or_date isValidDate v =
     (if isNaN (Number v) \<and> \<not> isValidDate v
      then Some ''Please enter a number of days or a valid date in the YYYY-MM-DD format''
      else None)"






subsection \<open>\<^verbatim>\<open>RemoveHandler\<close>\<close>

record remove_input =
  rm_bucket :: string
  rm_id :: string
  rm_jurisdiction :: "string option"
  rm_accountId :: string
  rm_remote_rules :: "lifecycle_rule list"

text \<open>\<^verbatim>\<open>findIndex\<close>: the first position whose element satisfies the test, if any.\<close>

fun findIndex :: "('a \<Rightarrow> bool) \<Rightarrow> 'a list \<Rightarrow> nat option" where
  "findIndex P [] = None"
| "findIndex P (x # xs) = (if P x then Some 0 else map_option Suc (findIndex P xs))"

text \<open>\<^verbatim>\<open>splice(index, 1)\<close> for an index inside the list.\<close>

definition splice1 :: "nat \<Rightarrow> 'a list \<Rightarrow> 'a list" where
  "splice1 i xs = take i xs @ drop (Suc i) xs"

definition RemoveHandler :: "remove_input \<Rightarrow> lc_event list \<times> (error + unit)" where
  "RemoveHandler inp =
     (let get = GetLifecycleRules (rm_accountId inp) (rm_bucket inp) (rm_jurisdiction inp);
          lifecycleRules = rm_remote_rules inp
      in case findIndex (\<lambda>rule. rule_id rule = rm_id inp) lifecycleRules of
           None \<Rightarrow>
             ([get],
              Inl (UserError (''Lifecycle rule with ID '' @ quoted (rm_id inp)
                              @ '' not found in policy for '' @ quoted (rm_bucket inp) @ ''.'')))
         | Some index \<Rightarrow>
             ([get,
               LogMessage (''Removing lifecycle rule '' @ quoted (rm_id inp) @ '' from bucket ''
                           @ quoted (rm_bucket inp) @ ''...''),
               PutLifecycleRules (rm_accountId inp) (rm_bucket inp)
                 (splice1 index lifecycleRules) (rm_jurisdiction inp),
               LogMessage (''Lifcycle rule '' @ quoted (rm_id inp) @ '' removed from bucket ''
                           @ quoted (rm_bucket inp) @ ''.'')],
              Inr ()))"

section \<open>Notions used in the properties\<close>






text \<open>
  What the command relies on from its collaborators. The line diff reports an added or a
  removed part exactly when the two texts differ; the serialiser separates two values
  when it does not give them the same text. \<open>container_table v\<close> is the object
  \<^verbatim>\<open>{ container_app: v }\<close> that is serialised.
\<close>

definition container_table :: "jsval \<Rightarrow> jsval" where
  "container_table v = JObj [(''container_app'', v)]"

definition diff_contract :: "services \<Rightarrow> bool" where
  "diff_contract svc \<longleftrightarrow> (\<forall>a b. has_changes (diffLines svc a b) \<longleftrightarrow> a \<noteq> b)"

definition serializer_separates :: "services \<Rightarrow> jsval \<Rightarrow> jsval \<Rightarrow> bool" where
  "serializer_separates svc p n \<longleftrightarrow>
     (toml_stringify svc (container_table p) = toml_stringify svc (container_table n) \<longrightarrow> p = n)"

text \<open>The declared application an action carries, and the actions one turn of the
  planning loop contributes (none when it throws).\<close>

fun action_application :: "action \<Rightarrow> obj" where
  "action_application (Create application) = application"
| "action_application (Modify ident name application) = application"

definition step_actions :: "services \<Rightarrow> name_table \<Rightarrow> obj \<Rightarrow> action list" where
  "step_actions svc tbl appConfig =
     (case snd (plan_step svc tbl appConfig) of Inl e \<Rightarrow> [] | Inr acts \<Rightarrow> acts)"

section \<open>Sample inputs\<close>

definition sample_rule :: "string \<Rightarrow> lifecycle_rule" where
  "sample_rule i = \<lparr> rule_id = i, enabled = True, conditions_prefix = None,
       deleteObjectsTransition = None, storageClassTransitions = None,
       abortMultipartUploadsTransition = None \<rparr>"

definition sample_remove :: "string \<Rightarrow> remove_input" where
  "sample_remove i = \<lparr> rm_bucket = ''bucket'', rm_id = i, rm_jurisdiction = None,
       rm_accountId = ''account'', rm_remote_rules = [sample_rule ''a'', sample_rule ''b''] \<rparr>"




text \<open>
  A small serialiser and a coarse line diff, to run the command on examples, and sample
  applications: a declared one, and a live one with a given number of instances.
\<close>

fun show_value :: "jsval \<Rightarrow> string"
  and show_values :: "jsval list \<Rightarrow> string"
  and show_entries :: "(string \<times> jsval) list \<Rightarrow> string"
where
  "show_value JUndef = ''undefined''"
| "show_value JNull = ''null''"
| "show_value (JBool b) = (if b then ''true'' else ''false'')"
| "show_value (JNum n) = string_of_int n"
| "show_value (JStr s) = CHR 0x22 # s @ [CHR 0x22]"
| "show_value (JArr xs) = ''['' @ show_values xs @ '']''"
| "show_value (JObj kvs) = ''{'' @ show_entries kvs @ ''}''"
| "show_value (JFun f) = f"
| "show_values [] = []"
| "show_values (x # xs) = show_value x @ '','' @ show_values xs"
| "show_entries [] = []"
| "show_entries ((k, v) # kvs) = k @ '' = '' @ show_value v @ [newline] @ show_entries kvs"

definition sample_stringify :: "jsval \<Rightarrow> string" where
  "sample_stringify v = (case v of JObj kvs \<Rightarrow> show_entries kvs | _ \<Rightarrow> show_value v)"

definition sample_diffLines :: "string \<Rightarrow> string \<Rightarrow> change list" where
  "sample_diffLines a b =
     (if a = b then [\<lparr> ch_value = a, ch_added = False, ch_removed = False \<rparr>]
      else [\<lparr> ch_value = a, ch_added = False, ch_removed = True \<rparr>,
            \<lparr> ch_value = b, ch_added = True, ch_removed = False \<rparr>])"

definition sample_services :: services where
  "sample_services = \<lparr> toml_stringify = sample_stringify, diffLines = sample_diffLines,
       REGIONAL = JStr ''regional'', VALIDATE_INPUT = ''VALIDATE_INPUT'' \<rparr>"

definition sample_spec :: obj where
  "sample_spec = [(''name'', JStr ''web''), (''instances'', JNum 2),
                  (''configuration'', JObj [(''image'', JStr ''registry/web:1'')])]"

definition sample_live :: "int \<Rightarrow> obj" where
  "sample_live n = [(''id'', JStr ''app-1''), (''name'', JStr ''web''), (''instances'', JNum n),
                    (''configuration'', JObj [(''image'', JStr ''registry/web:1'')]),
                    (''created_at'', JStr ''2024-01-01'')]"

definition sample_normal :: "int \<Rightarrow> jsval" where
  "sample_normal n = JObj [(''configuration'', JObj [(''image'', JStr ''registry/web:1'')]),
                           (''instances'', JNum n), (''name'', JStr ''web'')]"

definition sample_db :: obj where
  "sample_db = [(''name'', JStr ''db''), (''instances'', JNum 1)]"




section \<open>Properties\<close>

subsection \<open>Removing a lifecycle rule\<close>

lemma findIndex_None: "findIndex P xs = None \<longleftrightarrow> (\<forall>x\<in>set xs. \<not> P x)"
  by (induction xs) auto

lemma findIndex_first:
  "P r \<Longrightarrow> (\<forall>x\<in>set pre. \<not> P x) \<Longrightarrow> findIndex P (pre @ r # post) = Some (length pre)"
  by (induction pre) auto

lemma splice1_at: "splice1 (length pre) (pre @ r # post) = pre @ post"
  by (simp add: splice1_def)

text \<open>
  C10. When the fetched list contains the id, \<^verbatim>\<open>RemoveHandler\<close> writes back, in one
  request, the list without the first rule of that id, the other rules in their order,
  and returns normally. When the list does not contain the id, it throws the not-found
  \<^verbatim>\<open>UserError\<close> and sends no write request.
\<close>

theorem RemoveHandler_deletes_first_match_or_fails:
  "(rm_remote_rules inp = pre @ r # post \<and> rule_id r = rm_id inp
      \<and> rm_id inp \<notin> rule_id ` set pre
    \<longrightarrow> filter is_put (fst (RemoveHandler inp))
          = [PutLifecycleRules (rm_accountId inp) (rm_bucket inp) (pre @ post) (rm_jurisdiction inp)]
        \<and> snd (RemoveHandler inp) = Inr ())
   \<and> (rm_id inp \<notin> rule_id ` set (rm_remote_rules inp)
    \<longrightarrow> snd (RemoveHandler inp)
          = Inl (UserError (''Lifecycle rule with ID '' @ quoted (rm_id inp)
                            @ '' not found in policy for '' @ quoted (rm_bucket inp) @ ''.''))
        \<and> filter is_put (fst (RemoveHandler inp)) = [])"
proof (intro conjI impI)
  assume a: "rm_remote_rules inp = pre @ r # post \<and> rule_id r = rm_id inp
      \<and> rm_id inp \<notin> rule_id ` set pre"
  then have "findIndex (\<lambda>rule. rule_id rule = rm_id inp) (rm_remote_rules inp) = Some (length pre)"
    using findIndex_first [of "\<lambda>rule. rule_id rule = rm_id inp" r pre post] by force
  with a show "filter is_put (fst (RemoveHandler inp))
          = [PutLifecycleRules (rm_accountId inp) (rm_bucket inp) (pre @ post) (rm_jurisdiction inp)]"
    and "snd (RemoveHandler inp) = Inr ()"
    by (simp_all add: RemoveHandler_def Let_def splice1_at)
next
  assume "rm_id inp \<notin> rule_id ` set (rm_remote_rules inp)"
  then have "findIndex (\<lambda>rule. rule_id rule = rm_id inp) (rm_remote_rules inp) = None"
    unfolding findIndex_None by (metis image_eqI)
  then show "snd (RemoveHandler inp)
          = Inl (UserError (''Lifecycle rule with ID '' @ quoted (rm_id inp)
                            @ '' not found in policy for '' @ quoted (rm_bucket inp) @ ''.''))"
    and "filter is_put (fst (RemoveHandler inp)) = []"
    by (simp_all add: RemoveHandler_def Let_def)
qed

text \<open>
  Removing \<^verbatim>\<open>"b"\<close> from the rules \<^verbatim>\<open>a\<close>, \<^verbatim>\<open>b\<close> writes back the rule \<^verbatim>\<open>a\<close> alone; removing
  \<^verbatim>\<open>"c"\<close> fails and writes nothing.
\<close>

theorem RemoveHandler_witness:
  "filter is_put (fst (RemoveHandler (sample_remove ''b'')))
     = [PutLifecycleRules ''account'' ''bucket'' [sample_rule ''a''] None]
   \<and> snd (RemoveHandler (sample_remove ''b'')) = Inr ()
   \<and> snd (RemoveHandler (sample_remove ''c''))
     = Inl (UserError ''Lifecycle rule with ID 'c' not found in policy for 'bucket'.'')
   \<and> filter is_put (fst (RemoveHandler (sample_remove ''c''))) = []"
  using RemoveHandler_deletes_first_match_or_fails
          [of "sample_remove ''b''" "[sample_rule ''a'']" "sample_rule ''b''" "[]"]
        RemoveHandler_deletes_first_match_or_fails [of "sample_remove ''c''" "[]" "sample_rule ''c''" "[]"]
  by (simp add: sample_remove_def sample_rule_def quoted_def)

subsection \<open>Numbers and dates read from the prompts\<close>

lemma not_space_digit: "is_digit c \<Longrightarrow> \<not> is_space c"
  by (auto simp: is_digit_def is_space_def)

lemma dropWhile_id: "xs = [] \<or> \<not> P (hd xs) \<Longrightarrow> dropWhile P xs = xs"
  by (cases xs) auto

lemma trim_digits: "list_all is_digit ds \<Longrightarrow> trim ds = ds"
proof (cases "ds = []")
  case True
  then show ?thesis by (simp add: trim_def)
next
  case False
  assume d: "list_all is_digit ds"
  from False d have h: "\<not> is_space (hd ds)" by (cases ds) (auto simp: not_space_digit)
  from False d have l: "\<not> is_space (last ds)"
    by (metis last_in_set list_all_iff not_space_digit)
  have "dropWhile is_space ds = ds" using h by (intro dropWhile_id) simp
  moreover have "dropWhile is_space (rev ds) = rev ds"
    using l False by (intro dropWhile_id) (simp add: hd_rev)
  ultimately show ?thesis by (simp add: trim_def)
qed

lemma takeWhile_all: "list_all P xs \<Longrightarrow> takeWhile P xs = xs"
  by (induction xs) auto

lemma dropWhile_all: "list_all P xs \<Longrightarrow> dropWhile P xs = []"
  by (induction xs) auto

lemma Number_digits:
  assumes "ds \<noteq> []" "list_all is_digit ds"
  shows "Number ds = Fin (of_int (int_of_digits ds))"
proof -
  obtain c cs where ds: "ds = c # cs" using assms(1) by (cases ds) auto
  with assms(2) have c: "is_digit c" by simp
  then have c1: "c \<noteq> CHR ''+''" "c \<noteq> CHR ''-''" "c \<noteq> CHR ''I''"
    by (auto simp: is_digit_def)
  have nox: "take 2 ds \<noteq> ''0x''" "take 2 ds \<noteq> ''0X''" "take 2 ds \<noteq> ''0o''" "take 2 ds \<noteq> ''0O''"
    "take 2 ds \<noteq> ''0b''" "take 2 ds \<noteq> ''0B''"
    using assms(2) unfolding ds by (cases cs; auto simp: is_digit_def)+
  have pu: "parse_unsigned_decimal ds = Some (of_int (int_of_digits ds))"
    using assms by (simp add: parse_unsigned_decimal_def takeWhile_all dropWhile_all
        parse_exponent_def scale10_def)
  have "parse_unsigned ds = Fin (of_int (int_of_digits ds))"
    using c1 pu by (simp add: parse_unsigned_def ds)
  moreover have "take 1 ds \<noteq> ''+''" "take 1 ds \<noteq> ''-''" using c1 by (simp_all add: ds)
  ultimately show ?thesis
    using nox assms(1) by (simp add: Number_def Let_def trim_digits [OF assms(2)])
qed

lemma Number_samples:
  "Number ''7'' = Fin 7" "Number ''2025-01-01'' = NaN" "Number ''-5'' = Fin (- 5)"
  "Number ''1.5'' = Fin (3 / 2)" "Number [] = Fin 0" "Number ''abc'' = NaN"
  by code_simp+






text \<open>
  The validation of a day count accepts \<^verbatim>\<open>"-5"\<close>, \<^verbatim>\<open>"1.5"\<close> and the empty input, none of
  which is a non-negative integer number of days.
\<close>

theorem validate_days_counterexample:
  "validate_days ''-5'' = None \<and> Number ''-5'' = Fin (- 5)
   \<and> validate_days ''1.5'' = None \<and> Number ''1.5'' = Fin (3 / 2)
   \<and> validate_days [] = None"
  by (simp add: validate_days_def Number_samples isNaN_def)

text \<open>
  C9, as the code has it. A day-count input passes validation exactly when \<^verbatim>\<open>Number\<close> of
  it is not \<^verbatim>\<open>NaN\<close>; a rejected input gets the message "Please enter a number of days";
  for \<^verbatim>\<open>expire\<close> and \<^verbatim>\<open>transition\<close> an input also passes when \<^verbatim>\<open>isValidDate\<close> accepts it.
  Every non-negative integer written in decimal digits passes, and \<^verbatim>\<open>"abc"\<close> is rejected.
\<close>

theorem validate_days_accepts_what_Number_reads:
  "(validate_days v = None \<longleftrightarrow> Number v \<noteq> NaN)
   \<and> (validate_days v \<noteq> None \<longleftrightarrow> validate_days v = Some ''Please enter a number of days'')
   \<and> (validate_days_or_date isValidDate v = None \<longleftrightarrow> Number v \<noteq> NaN \<or> isValidDate v)
   \<and> (ds \<noteq> [] \<and> list_all is_digit ds \<longrightarrow> validate_days ds = None)
   \<and> validate_days ''abc'' = Some ''Please enter a number of days''"
  by (auto simp: validate_days_def validate_days_or_date_def isNaN_def Number_digits Number_samples)

text \<open>The decimal texts \<^verbatim>\<open>"7"\<close> and \<^verbatim>\<open>"604800"\<close> pass.\<close>

theorem validate_days_witness:
  "validate_days ''7'' = None \<and> validate_days ''604800'' = None"
proof -
  have d: "''7'' \<noteq> [] \<and> list_all is_digit ''7''" "''604800'' \<noteq> [] \<and> list_all is_digit ''604800''"
    by (simp_all add: is_digit_def)
  from d(1) validate_days_accepts_what_Number_reads [of "''7''" isValidDate_spec "''7''"]
  have "validate_days ''7'' = None" by blast
  moreover from d(2) validate_days_accepts_what_Number_reads [of "''7''" isValidDate_spec "''604800''"]
  have "validate_days ''604800'' = None" by blast
  ultimately show ?thesis by simp
qed

subsection \<open>Own properties\<close>

lemma obj_keys_update [simp]: "obj_keys (obj_update k v ob) = obj_keys ob"
  by (induction ob) auto

lemma fst_set_update [simp]: "fst ` set (obj_update k v ob) = fst ` set ob"
  using obj_keys_update [of k v ob] by (metis set_map)


lemma fst_set_insert_index [simp]:
  "fst ` set (obj_insert_index k v ob) = insert k (fst ` set ob)"
  by (induction ob) auto






lemma fst_set_obj_set [simp]: "fst ` set (obj_set k v ob) = insert k (fst ` set ob)"
  by (auto simp: obj_set_def)





subsection \<open>\<^verbatim>\<open>order\<close> and \<^verbatim>\<open>sortObjectDeeply\<close>\<close>















subsection \<open>Idempotence of the deep sort\<close>





subsection \<open>The key order that \<^verbatim>\<open>order\<close> produces\<close>







subsection \<open>\<^verbatim>\<open>stripUndefined\<close> and the shape of sorted values\<close>

lemma obj_get_absent: "k \<notin> fst ` set r \<Longrightarrow> obj_get r k = JUndef"
  by (simp add: obj_get_def map_of_eq_None_iff [THEN iffD2])











subsection \<open>What is compared: the two normal forms\<close>






subsection \<open>A declared application that matches a live one\<close>




lemma sample_contract: "diff_contract sample_services"
  by (simp add: diff_contract_def sample_services_def sample_diffLines_def has_changes_def)

lemma sample_lookup:
  "table_get (applicationByNames [sample_live m]) (name_key sample_spec) = JObj (sample_live m)"
  by (simp add: applicationByNames_def table_set_def table_get_def empty_table_def name_key_def
      sample_live_def sample_spec_def obj_get_def obj_set_def)

lemma sample_live_normal: "normalize_live (JObj (sample_live 2)) = Inr (sample_normal 2)"
  "normalize_live (JObj (sample_live 3)) = Inr (sample_normal 3)"
  by code_simp+

lemma sample_spec_normal: "normalize_declared sample_spec = Inr (sample_normal 2)"
  by code_simp

lemma sample_separates: "serializer_separates sample_services (sample_normal 3) (sample_normal 2)"
  by code_simp



subsection \<open>A declared application without a live one\<close>

lemma plan_step_create:
  "table_get tbl (name_key appConfig) = JUndef \<or> table_get tbl (name_key appConfig) = JNull \<Longrightarrow>
   snd (plan_step svc tbl appConfig) = Inr [Create appConfig]"
  by (auto simp: plan_step_def Let_def)

lemma applicationByNames_snoc:
  "applicationByNames (apps @ [a]) = table_set (name_key a) a (applicationByNames apps)"
  by (simp add: applicationByNames_def)

lemma table_plain:
  "''__proto__'' \<notin> name_key ` set apps \<Longrightarrow>
   proto (applicationByNames apps) = None
   \<and> fst ` set (own (applicationByNames apps)) = name_key ` set apps"
proof (induction apps rule: rev_induct)
  case Nil
  then show ?case by (simp add: applicationByNames_def empty_table_def)
next
  case (snoc a apps)
  then show ?case by (auto simp: applicationByNames_snoc table_set_def)
qed

lemma table_get_unmatched:
  assumes "''__proto__'' \<notin> name_key ` set apps" "k \<notin> name_key ` set apps" "k \<noteq> ''__proto__''"
  shows "table_get (applicationByNames apps) k = object_prototype_member k"
proof -
  from table_plain [OF assms(1)] assms(2)
  have "proto (applicationByNames apps) = None" "map_of (own (applicationByNames apps)) k = None"
    by (simp_all add: map_of_eq_None_iff)
  then show ?thesis using assms(3) by (simp add: table_get_def inherited_def)
qed

lemma create_for_unmatched_plain_name:
  assumes "''__proto__'' \<notin> name_key ` set apps" "name_key appConfig \<notin> name_key ` set apps"
    "name_key appConfig \<noteq> ''__proto__''" "object_prototype_member (name_key appConfig) = JUndef"
  shows "snd (plan_step svc (applicationByNames apps) appConfig) = Inr [Create appConfig]"
  using table_get_unmatched [OF assms(1,2,3)] assms(4) by (intro plan_step_create) simp

lemma constructor_lookup:
  "table_get (applicationByNames []) (name_key [(''name'', JStr ''constructor'')]) = JFun ''Object''"
  by code_simp

lemma constructor_normal:
  "normalize_live (JFun ''Object'') = Inr (JObj [(''name'', JStr ''Object'')])"
  "normalize_declared [(''name'', JStr ''constructor'')] = Inr (JObj [(''name'', JStr ''constructor'')])"
  by code_simp+

text \<open>
  C2 at a declared application named \<^verbatim>\<open>constructor\<close> with an empty remote listing: the
  lookup in the table returns the inherited \<^verbatim>\<open>Object\<close> function, so the turn compares the
  declared application with it and pushes a \<open>Modify\<close> without id, or nothing, and never
  a \<open>Create\<close>. (\<open>create_for_unmatched_plain_name\<close> above is the case of every other
  name.)
\<close>

theorem inherited_name_is_not_created:
  "table_get (applicationByNames []) (name_key [(''name'', JStr ''constructor'')]) = JFun ''Object''
   \<and> snd (plan_step svc (applicationByNames []) [(''name'', JStr ''constructor'')])
       = (if has_changes (diffLines svc
                (toml_stringify svc (JObj [(''container_app'', JObj [(''name'', JStr ''Object'')])]))
                (toml_stringify svc (JObj [(''container_app'', JObj [(''name'', JStr ''constructor'')])])))
          then Inr [Modify JUndef (JStr ''Object'') [(''name'', JStr ''constructor'')]]
          else Inr [])
   \<and> snd (plan_step svc (applicationByNames []) [(''name'', JStr ''constructor'')])
       \<noteq> Inr [Create [(''name'', JStr ''constructor'')]]"
  using constructor_lookup constructor_normal
  by (simp add: plan_step_def Let_def)

subsection \<open>The order of the actions\<close>

lemma step_actions_shape:
  "step_actions svc tbl s = [] \<or> (\<exists>a. step_actions svc tbl s = [a] \<and> action_application a = s)"
  by (auto simp: step_actions_def plan_step_def Let_def split: sum.splits)

lemma plan_concat:
  "plan svc tbl specs = (evs, Inr actions) \<Longrightarrow> actions = concat (map (step_actions svc tbl) specs)"
proof (induction specs arbitrary: evs actions)
  case Nil
  then show ?case by simp
next
  case (Cons s specs)
  then show ?case
    by (auto simp: step_actions_def split: prod.splits sum.splits)
qed

lemma applications_of_concat:
  "map action_application (concat (map (step_actions svc tbl) specs))
     = filter (\<lambda>s. step_actions svc tbl s \<noteq> []) specs"
proof (induction specs)
  case Nil
  then show ?case by simp
next
  case (Cons s specs)
  with step_actions_shape [of svc tbl s] show ?case by auto
qed

text \<open>
  C6. The action list is the concatenation, in the order of the declared applications,
  of what each turn of the loop contributes; a turn contributes nothing or one action
  that carries its declared application. So the applications carried by the actions are
  the declared applications that need an action, in declared order.
\<close>

theorem actions_in_declared_order:
  assumes "plan svc tbl specs = (evs, Inr actions)"
  shows "actions = concat (map (step_actions svc tbl) specs)
         \<and> map action_application actions = filter (\<lambda>s. step_actions svc tbl s \<noteq> []) specs"
  using plan_concat [OF assms] applications_of_concat [of svc tbl specs] by simp

lemma snd_plan_Cons:
  "snd (plan svc tbl (s # rest))
     = (case snd (plan_step svc tbl s) of
          Inl e \<Rightarrow> Inl e
        | Inr acts \<Rightarrow> (case snd (plan svc tbl rest) of Inl e \<Rightarrow> Inl e | Inr acts' \<Rightarrow> Inr (acts @ acts')))"
  by (simp split: prod.splits sum.splits)

lemma sample_step_modify:
  "snd (plan_step sample_services (applicationByNames [sample_live 3]) sample_spec)
     = Inr [Modify (JStr ''app-1'') (JStr ''web'') sample_spec]"
proof -
  have f: "get_field (JObj (sample_live 3)) ''id'' = JStr ''app-1''"
    "get_field (JObj (sample_live 3)) ''name'' = JStr ''web''"
    by (simp_all add: sample_live_def obj_get_def)
  have ne: "sample_normal 3 \<noteq> sample_normal 2" by (simp add: sample_normal_def)
  show ?thesis
    using sample_contract sample_lookup [of 3] sample_live_normal(2) sample_spec_normal
      sample_separates ne f
    by (auto simp: plan_step_def Let_def diff_contract_def serializer_separates_def
        container_table_def)
qed

lemma sample_db_lookup:
  "table_get (applicationByNames [sample_live 3]) (name_key sample_db) = JUndef"
  by (simp add: applicationByNames_def table_set_def table_get_def empty_table_def name_key_def
      sample_live_def sample_db_def obj_get_def obj_set_def inherited_def
      object_prototype_member_def)

lemma sample_step_create:
  "snd (plan_step sample_services (applicationByNames [sample_live 3]) sample_db)
     = Inr [Create sample_db]"
  by (rule plan_step_create) (simp add: sample_db_lookup)

text \<open>
  Two declared applications, the first to modify and the second to create.
\<close>

theorem actions_in_declared_order_witness:
  "snd (plan sample_services (applicationByNames [sample_live 3]) [sample_spec, sample_db])
     = Inr [Modify (JStr ''app-1'') (JStr ''web'') sample_spec, Create sample_db]
   \<and> [Modify (JStr ''app-1'') (JStr ''web'') sample_spec, Create sample_db]
     = concat (map (step_actions sample_services (applicationByNames [sample_live 3]))
               [sample_spec, sample_db])
   \<and> map action_application [Modify (JStr ''app-1'') (JStr ''web'') sample_spec, Create sample_db]
     = [sample_spec, sample_db]"
proof -
  let ?tbl = "applicationByNames [sample_live 3]"
  let ?acts = "[Modify (JStr ''app-1'') (JStr ''web'') sample_spec, Create sample_db]"
  have s: "snd (plan sample_services ?tbl [sample_spec, sample_db]) = Inr ?acts"
    unfolding snd_plan_Cons sample_step_modify sample_step_create by simp
  then have "plan sample_services ?tbl [sample_spec, sample_db]
               = (fst (plan sample_services ?tbl [sample_spec, sample_db]), Inr ?acts)"
    by (metis prod.collapse)
  from actions_in_declared_order [OF this]
  have t: "?acts = concat (map (step_actions sample_services ?tbl) [sample_spec, sample_db])"
    by (rule conjunct1)
  have "map action_application ?acts = [sample_spec, sample_db]" by simp
  with s t show ?thesis by blast
qed

subsection \<open>No declared application\<close>




end
